theory Spec2Isabelle
  imports Complex_Main
begin

section \<open>The intruder alert monitor: a shallow embedding of intruder\_alert.py\<close>

text \<open>
  The program polls a distance sensor, and on an in-range reading outside the cooldown
  window it optionally captures a photo through a chain of command line tools and posts an
  alert to a Discord webhook. Everything the program reads from outside (the sensor, the
  clock, the programs on the PATH, the file system, the webhook's answer) is an explicit
  argument of the model; everything it does to the outside (spawning a tool, posting a
  request, writing a log line) is an entry of the list of actions a function returns.

  Python floats (distances, timestamps) are modelled by real numbers: rounding, infinities
  and NaN are outside the model. A call that never returns has the value \<open>None\<close>;
  a raised exception is \<open>Inl\<close>. Asynchronous signals (Ctrl+C) are outside the model.
\<close>

subsection \<open>Exceptions, log lines and observable actions\<close>

datatype py_exc =
    CalledProcessError int
  | TimeoutExpired
  | ValueError
  | FileNotFoundError
  | IsADirectoryError
  | PermissionError
  | RequestException string

type_synonym path = string

datatype level = INFO | WARNING | ERROR

text \<open>The log lines of the program, with the values they are formatted from.\<close>

datatype message =
    TriggerSending real real    \<comment> \<open>distance, COOLDOWN\_SECONDS\<close>
  | TriggerCooldown real real   \<comment> \<open>distance, cooldown left\<close>
  | Clear
  | CaptureFailed
  | NoWebhook
  | DiscordSent
  | DiscordFailed int string    \<comment> \<open>status code, first 200 characters of the body\<close>
  | DiscordError py_exc

text \<open>
  The body of a webhook request: the alert text is built from the distance (and the wall
  clock); a multipart body also carries the file read from the given path.
\<close>

datatype body = Json real | Multipart real path

record request =
  url :: string
  payload :: body
  timeout :: nat

record response =
  status_code :: int
  body_text :: string

datatype action =
    Capture_image path                    \<comment> \<open>a call of capture\_image\<close>
  | Send_discord real "path option"       \<comment> \<open>a call of send\_discord\<close>
  | Subprocess_run "string list" "nat option"  \<comment> \<open>command and timeout argument\<close>
  | Requests_post request
  | Logging level message

subsection \<open>The outside world\<close>

text \<open>
  A file system maps a path to the node there. A node is a regular file or not
  (a directory, say), and the process may or may not be allowed to read or remove it.
\<close>

record node =
  regular :: bool
  readable :: bool
  removable :: bool

type_synonym filesystem = "path \<rightharpoonup> node"

definition os_path_exists :: "filesystem \<Rightarrow> path \<Rightarrow> bool" where
  "os_path_exists fs p = (p \<noteq> [] \<and> fs p \<noteq> None)"

definition os_path_isfile :: "filesystem \<Rightarrow> path \<Rightarrow> bool" where
  "os_path_isfile fs p = (p \<noteq> [] \<and> (case fs p of None \<Rightarrow> False | Some n \<Rightarrow> regular n))"

definition os_remove :: "filesystem \<Rightarrow> path \<Rightarrow> py_exc + filesystem" where
  "os_remove fs p =
     (case fs p of
        None \<Rightarrow> Inl FileNotFoundError
      | Some n \<Rightarrow>
          if \<not> regular n then Inl IsADirectoryError
          else if \<not> removable n then Inl PermissionError
          else Inr (fs(p := None)))"

text \<open>\<open>open(p, "rb")\<close>: succeeds on a readable regular file.\<close>

definition open_rb :: "filesystem \<Rightarrow> path \<Rightarrow> py_exc + unit" where
  "open_rb fs p =
     (case fs p of
        None \<Rightarrow> Inl FileNotFoundError
      | Some n \<Rightarrow>
          if \<not> regular n then Inl IsADirectoryError
          else if \<not> readable n then Inl PermissionError
          else Inr ())"

text \<open>
  A command line tool either exits with a code or never exits; it may or may not have
  written its output file (the last argument of each command of this program) by then.
\<close>

datatype proc_outcome = Exits int | Hangs

record tool =
  outcome :: proc_outcome
  writes_output :: bool

text \<open>
  The environment: the tools found on the PATH, and what \<open>requests.post\<close> gives for
  a request (a response, or an exception such as a timeout or a connection error).
\<close>

record env =
  tools :: "string \<rightharpoonup> tool"
  http :: "request \<Rightarrow> py_exc + response"

definition shutil_which :: "env \<Rightarrow> string \<Rightarrow> bool" where
  "shutil_which e name = (tools e name \<noteq> None)"

definition fresh_file :: node where
  "fresh_file = \<lparr>regular = True, readable = True, removable = True\<rparr>"

text \<open>
  \<open>subprocess.run(cmd, check=True, timeout=t)\<close>. Without a timeout the call waits
  for the process for ever; with one, a process still running then is killed and
  TimeoutExpired is raised. With \<open>check=True\<close> a non-zero exit code raises
  CalledProcessError.
\<close>

definition subprocess_run ::
  "env \<Rightarrow> filesystem \<Rightarrow> string list \<Rightarrow> nat option \<Rightarrow> ((py_exc + unit) \<times> filesystem) option" where
  "subprocess_run e fs cmd tmo =
     (case cmd of
        [] \<Rightarrow> Some (Inl ValueError, fs)
      | name # args \<Rightarrow>
          (case tools e name of
             None \<Rightarrow> Some (Inl FileNotFoundError, fs)
           | Some t \<Rightarrow>
               (case outcome t of
                  Hangs \<Rightarrow>
                    (case tmo of None \<Rightarrow> None | Some s \<Rightarrow> Some (Inl TimeoutExpired, fs))
                | Exits c \<Rightarrow>
                    (let fs' = (if writes_output t then fs(last cmd \<mapsto> fresh_file) else fs)
                     in if c = 0 then Some (Inr (), fs')
                        else Some (Inl (CalledProcessError c), fs')))))"

subsection \<open>Configuration\<close>

text \<open>The module level settings, read from the process environment at import time.\<close>

record config =
  DISTANCE_THRESHOLD_CM :: real
  COOLDOWN_SECONDS :: real
  SEND_PHOTO :: bool
  WEBHOOK_URL :: string

definition PHOTO_PATH :: path where
  "PHOTO_PATH = ''/tmp/intruder.jpg''"

definition PLACEHOLDER :: string where
  "PLACEHOLDER = ''PUT_A_NEW_DISCORD_WEBHOOK_HERE''"

text \<open>Python's \<open>needle in haystack\<close> on strings.\<close>

fun str_in :: "string \<Rightarrow> string \<Rightarrow> bool" where
  "str_in needle [] = (needle = [])"
| "str_in needle (c # cs) = (take (length needle) (c # cs) = needle \<or> str_in needle cs)"

subsection \<open>Camera helpers\<close>

text \<open>\<open>_run_quiet\<close>: run the command with no timeout argument; any exception is False.\<close>

definition run_quiet :: "env \<Rightarrow> filesystem \<Rightarrow> string list \<Rightarrow> (bool \<times> filesystem) option" where
  "run_quiet e fs cmd =
     (case subprocess_run e fs cmd None of
        None \<Rightarrow> None
      | Some (Inr u, fs') \<Rightarrow> Some (True, fs')
      | Some (Inl x, fs') \<Rightarrow> Some (False, fs'))"

definition rpicam_cmd :: "path \<Rightarrow> string list" where
  "rpicam_cmd p = [''rpicam-still'', ''-n'', ''--zsl'', ''-t'', ''500'', ''--immediate'',
                   ''--width'', ''1280'', ''--height'', ''720'', ''-o'', p]"

definition libcamera_cmd :: "path \<Rightarrow> string list" where
  "libcamera_cmd p = [''libcamera-still'', ''-n'', ''-t'', ''500'', ''--immediate'',
                      ''--width'', ''1280'', ''--height'', ''720'', ''-o'', p]"

definition fswebcam_cmd :: "path \<Rightarrow> string list" where
  "fswebcam_cmd p = [''fswebcam'', ''-r'', ''1280x720'', ''--no-banner'', p]"

text \<open>
  One block of capture\_image, which the source writes out three times:
  \<^verbatim>\<open>if shutil.which(name): if _run_quiet(cmd): return os.path.isfile(path)\<close>.
  The result \<open>Some b\<close> is the \<open>return b\<close>; \<open>None\<close> falls through to the next block.
\<close>

definition backend ::
  "env \<Rightarrow> filesystem \<Rightarrow> path \<Rightarrow> string \<Rightarrow> string list
     \<Rightarrow> (bool option \<times> filesystem \<times> action list) option" where
  "backend e fs p name cmd =
     (if shutil_which e name then
        (case run_quiet e fs cmd of
           None \<Rightarrow> None
         | Some (ok, fs') \<Rightarrow>
             Some (if ok then Some (os_path_isfile fs' p) else None, fs',
                   [Subprocess_run cmd None]))
      else Some (None, fs, []))"

text \<open>The stale file is removed first; a failure to remove it is ignored.\<close>

definition remove_stale :: "filesystem \<Rightarrow> path \<Rightarrow> filesystem" where
  "remove_stale fs p =
     (if os_path_exists fs p then
        (case os_remove fs p of Inr fs' \<Rightarrow> fs' | Inl x \<Rightarrow> fs)
      else fs)"

definition capture_image ::
  "env \<Rightarrow> filesystem \<Rightarrow> path \<Rightarrow> (bool \<times> filesystem \<times> action list) option" where
  "capture_image e fs p =
     (case backend e (remove_stale fs p) p ''rpicam-still'' (rpicam_cmd p) of
        None \<Rightarrow> None
      | Some (Some b, fs1, a1) \<Rightarrow> Some (b, fs1, a1)
      | Some (None, fs1, a1) \<Rightarrow>
          (case backend e fs1 p ''libcamera-still'' (libcamera_cmd p) of
             None \<Rightarrow> None
           | Some (Some b, fs2, a2) \<Rightarrow> Some (b, fs2, a1 @ a2)
           | Some (None, fs2, a2) \<Rightarrow>
               (case backend e fs2 p ''fswebcam'' (fswebcam_cmd p) of
                  None \<Rightarrow> None
                | Some (Some b, fs3, a3) \<Rightarrow> Some (b, fs3, a1 @ a2 @ a3)
                | Some (None, fs3, a3) \<Rightarrow> Some (False, fs3, a1 @ a2 @ a3))))"

subsection \<open>Discord\<close>

definition webhook_missing :: "string \<Rightarrow> bool" where
  "webhook_missing u = (u = [] \<or> str_in PLACEHOLDER u)"

text \<open>\<open>requests.post\<close> followed by the status check and its log line.\<close>

definition post_and_log :: "env \<Rightarrow> request \<Rightarrow> (py_exc + unit) \<times> action list" where
  "post_and_log e rq =
     (case http e rq of
        Inl x \<Rightarrow> (Inl x, [Requests_post rq])
      | Inr r \<Rightarrow>
          (Inr (),
           [Requests_post rq,
            if 200 \<le> status_code r \<and> status_code r < 300
            then Logging INFO DiscordSent
            else Logging WARNING (DiscordFailed (status_code r) (take 200 (body_text r)))]))"

text \<open>
  The condition \<open>image_path and os.path.isfile(image_path)\<close>: the path to attach,
  if there is one. An empty string is false in Python, as None is.
\<close>

definition attachment :: "filesystem \<Rightarrow> path option \<Rightarrow> path option" where
  "attachment fs image_path =
     (case image_path of
        None \<Rightarrow> None
      | Some p \<Rightarrow> if p \<noteq> [] \<and> os_path_isfile fs p then Some p else None)"

text \<open>
  The body of the \<open>try\<close> block: choose the request, open the file if one is
  attached, post, log the status. An exception of \<open>open\<close> or of
  \<open>requests.post\<close> leaves the block.
\<close>

definition post_alert ::
  "config \<Rightarrow> env \<Rightarrow> filesystem \<Rightarrow> real \<Rightarrow> path option \<Rightarrow> (py_exc + unit) \<times> action list" where
  "post_alert cfg e fs distance_cm image_path =
     (case attachment fs image_path of
        Some p \<Rightarrow>
          (case open_rb fs p of
             Inl x \<Rightarrow> (Inl x, [])
           | Inr u \<Rightarrow>
               post_and_log e
                 \<lparr>url = WEBHOOK_URL cfg, payload = Multipart distance_cm p, timeout = 15\<rparr>)
      | None \<Rightarrow>
          post_and_log e
            \<lparr>url = WEBHOOK_URL cfg, payload = Json distance_cm, timeout = 15\<rparr>)"

text \<open>The whole function: the webhook check, then the \<open>try\<close> block and its handler.\<close>

definition send_discord ::
  "config \<Rightarrow> env \<Rightarrow> filesystem \<Rightarrow> real \<Rightarrow> path option \<Rightarrow> (py_exc + unit) \<times> action list" where
  "send_discord cfg e fs distance_cm image_path =
     (if webhook_missing (WEBHOOK_URL cfg) then (Inr (), [Logging ERROR NoWebhook])
      else
        (case post_alert cfg e fs distance_cm image_path of
           (Inl x, acts) \<Rightarrow> (Inr (), acts @ [Logging ERROR (DiscordError x)])
         | (Inr u, acts) \<Rightarrow> (Inr u, acts)))"

subsection \<open>Main loop\<close>

record state =
  last_sent :: real
  was_in_range :: bool

definition initial_state :: state where
  "initial_state = \<lparr>last_sent = 0, was_in_range = False\<rparr>"

text \<open>
  What one iteration reads: the distance from the sensor, the clock at the top of the
  iteration (\<open>now\<close>), and the clock again after send\_discord has returned, which the
  sending branch stores.
\<close>

record reading =
  dist_cm :: real
  now :: real
  clock_after_send :: real

definition in_range :: "config \<Rightarrow> reading \<Rightarrow> bool" where
  "in_range cfg r = (dist_cm r \<le> DISTANCE_THRESHOLD_CM cfg)"

definition cooldown_left :: "config \<Rightarrow> state \<Rightarrow> real \<Rightarrow> real" where
  "cooldown_left cfg st t = max 0 (COOLDOWN_SECONDS cfg - (t - last_sent st))"

text \<open>The optional photo of the sending branch: the image path handed to send\_discord.\<close>

definition take_photo ::
  "config \<Rightarrow> env \<Rightarrow> filesystem \<Rightarrow> (path option \<times> filesystem \<times> action list) option" where
  "take_photo cfg e fs =
     (if SEND_PHOTO cfg then
        (case capture_image e fs PHOTO_PATH of
           None \<Rightarrow> None
         | Some (ok, fs', acts) \<Rightarrow>
             if ok then Some (Some PHOTO_PATH, fs', Capture_image PHOTO_PATH # acts)
             else Some (None, fs',
                        Capture_image PHOTO_PATH # acts @ [Logging WARNING CaptureFailed]))
      else Some (None, fs, []))"

type_synonym tick_result = "(py_exc + state \<times> filesystem \<times> action list) option"

text \<open>One iteration of the \<open>while True\<close> loop of main.\<close>

definition tick :: "config \<Rightarrow> env \<Rightarrow> state \<Rightarrow> filesystem \<Rightarrow> reading \<Rightarrow> tick_result" where
  "tick cfg e st fs r =
     (if in_range cfg r then
        if cooldown_left cfg st (now r) \<le> 0 then
          (case take_photo cfg e fs of
             None \<Rightarrow> None
           | Some (img, fs', acts) \<Rightarrow>
               (case send_discord cfg e fs' (dist_cm r) img of
                  (Inl x, acts') \<Rightarrow> Some (Inl x)
                | (Inr u, acts') \<Rightarrow>
                    Some (Inr (\<lparr>last_sent = clock_after_send r, was_in_range = True\<rparr>, fs',
                               Logging INFO (TriggerSending (dist_cm r) (COOLDOWN_SECONDS cfg))
                                 # acts @ Send_discord (dist_cm r) img # acts'))))
        else
          Some (Inr (st\<lparr>was_in_range := True\<rparr>, fs,
                     [Logging INFO (TriggerCooldown (dist_cm r) (cooldown_left cfg st (now r)))]))
      else if was_in_range st then
        Some (Inr (st\<lparr>was_in_range := False\<rparr>, fs, [Logging INFO Clear]))
      else Some (Inr (st, fs, [])))"

text \<open>
  The loop runs until it is interrupted; the model runs it over the finite list of
  readings it gets before that, and joins the actions of the iterations.
\<close>

fun main_loop :: "config \<Rightarrow> env \<Rightarrow> state \<Rightarrow> filesystem \<Rightarrow> reading list \<Rightarrow> tick_result" where
  "main_loop cfg e st fs [] = Some (Inr (st, fs, []))"
| "main_loop cfg e st fs (r # rs) =
     (case tick cfg e st fs r of
        None \<Rightarrow> None
      | Some (Inl x) \<Rightarrow> Some (Inl x)
      | Some (Inr (st', fs', acts)) \<Rightarrow>
          (case main_loop cfg e st' fs' rs of
             None \<Rightarrow> None
           | Some (Inl x) \<Rightarrow> Some (Inl x)
           | Some (Inr (st'', fs'', acts')) \<Rightarrow> Some (Inr (st'', fs'', acts @ acts'))))"

subsection \<open>Reading a list of actions\<close>

fun is_capture_call :: "action \<Rightarrow> bool" where
  "is_capture_call (Capture_image p) = True"
| "is_capture_call a = False"

fun is_send_call :: "action \<Rightarrow> bool" where
  "is_send_call (Send_discord d img) = True"
| "is_send_call a = False"

fun is_spawn :: "action \<Rightarrow> bool" where
  "is_spawn (Subprocess_run cmd tmo) = True"
| "is_spawn a = False"

fun is_post :: "action \<Rightarrow> bool" where
  "is_post (Requests_post rq) = True"
| "is_post a = False"

fun is_clear :: "action \<Rightarrow> bool" where
  "is_clear (Logging l Clear) = True"
| "is_clear a = False"

text \<open>The state and the actions of an iteration that returned normally.\<close>

definition result_state :: "tick_result \<Rightarrow> state option" where
  "result_state res =
     (case res of Some (Inr (st, fs, acts)) \<Rightarrow> Some st | Some (Inl x) \<Rightarrow> None | None \<Rightarrow> None)"

definition result_actions :: "tick_result \<Rightarrow> action list option" where
  "result_actions res =
     (case res of Some (Inr (st, fs, acts)) \<Rightarrow> Some acts | Some (Inl x) \<Rightarrow> None | None \<Rightarrow> None)"

subsection \<open>Describing an environment\<close>

text \<open>What a tool on the PATH does when it is run.\<close>

definition hangs :: "env \<Rightarrow> string \<Rightarrow> bool" where
  "hangs e name = (case tools e name of None \<Rightarrow> False | Some t \<Rightarrow> outcome t = Hangs)"

definition exits_cleanly :: "env \<Rightarrow> string \<Rightarrow> bool" where
  "exits_cleanly e name =
     (case tools e name of None \<Rightarrow> False | Some t \<Rightarrow> outcome t = Exits 0)"

definition no_hang :: "env \<Rightarrow> bool" where
  "no_hang e =
     (\<not> hangs e ''rpicam-still'' \<and> \<not> hangs e ''libcamera-still'' \<and> \<not> hangs e ''fswebcam'')"

text \<open>The file system a command leaves behind when it is run without a timeout.\<close>

definition fs_after :: "env \<Rightarrow> filesystem \<Rightarrow> string list \<Rightarrow> filesystem" where
  "fs_after e fs cmd =
     (case subprocess_run e fs cmd None of None \<Rightarrow> fs | Some (res, fs') \<Rightarrow> fs')"

text \<open>The backends of the chain in their order, each with its command.\<close>

definition chain :: "path \<Rightarrow> (string \<times> string list) list" where
  "chain p = [(''rpicam-still'', rpicam_cmd p),
              (''libcamera-still'', libcamera_cmd p),
              (''fswebcam'', fswebcam_cmd p)]"

text \<open>
  The commands a chain runs: those of the backends on the PATH, in order, up to and
  including the first one that exits cleanly.
\<close>

fun tried :: "env \<Rightarrow> (string \<times> string list) list \<Rightarrow> string list list" where
  "tried e [] = []"
| "tried e ((name, cmd) # rest) =
     (if shutil_which e name then
        (if exits_cleanly e name then [cmd] else cmd # tried e rest)
      else tried e rest)"

text \<open>
  The edges from in range to out of range in a sequence of readings, the first one
  compared with the stored flag: the excursions out of range.
\<close>

fun excursions :: "bool \<Rightarrow> bool list \<Rightarrow> nat" where
  "excursions prev [] = 0"
| "excursions prev (b # bs) = (if prev \<and> \<not> b then 1 else 0) + excursions b bs"

subsection \<open>Sample configurations and environments\<close>

definition demo_cfg :: config where
  "demo_cfg = \<lparr>DISTANCE_THRESHOLD_CM = 35, COOLDOWN_SECONDS = 30, SEND_PHOTO = False,
               WEBHOOK_URL = ''https://discord.example/api/webhooks/1/abc''\<rparr>"

definition photo_cfg :: config where
  "photo_cfg = demo_cfg\<lparr>SEND_PHOTO := True\<rparr>"

definition default_cfg :: config where
  "default_cfg = demo_cfg\<lparr>WEBHOOK_URL := PLACEHOLDER\<rparr>"

definition http_ok :: "request \<Rightarrow> py_exc + response" where
  "http_ok rq = Inr \<lparr>status_code = 204, body_text = []\<rparr>"

definition http_500 :: "request \<Rightarrow> py_exc + response" where
  "http_500 rq = Inr \<lparr>status_code = 500, body_text = ''Internal Server Error''\<rparr>"

definition http_down :: "request \<Rightarrow> py_exc + response" where
  "http_down rq = Inl (RequestException ''ConnectTimeout'')"

definition no_camera :: env where
  "no_camera = \<lparr>tools = Map.empty, http = http_ok\<rparr>"

definition server_error_env :: env where
  "server_error_env = \<lparr>tools = Map.empty, http = http_500\<rparr>"

text \<open>rpicam-still exits with code 0 without writing a file; libcamera-still works.\<close>

definition silent_rpicam :: env where
  "silent_rpicam =
     \<lparr>tools = [''rpicam-still'' \<mapsto> \<lparr>outcome = Exits 0, writes_output = False\<rparr>,
               ''libcamera-still'' \<mapsto> \<lparr>outcome = Exits 0, writes_output = True\<rparr>],
      http = http_ok\<rparr>"

text \<open>rpicam-still works; fswebcam, last in the chain, would never exit.\<close>

definition late_hang :: env where
  "late_hang =
     \<lparr>tools = [''rpicam-still'' \<mapsto> \<lparr>outcome = Exits 0, writes_output = True\<rparr>,
               ''fswebcam'' \<mapsto> \<lparr>outcome = Hangs, writes_output = False\<rparr>],
      http = http_ok\<rparr>"

text \<open>rpicam-still never exits.\<close>

definition stuck_rpicam :: env where
  "stuck_rpicam =
     \<lparr>tools = [''rpicam-still'' \<mapsto> \<lparr>outcome = Hangs, writes_output = False\<rparr>],
      http = http_ok\<rparr>"

text \<open>A photo at PHOTO\_PATH that the process may not read.\<close>

definition locked_photo :: filesystem where
  "locked_photo = [PHOTO_PATH \<mapsto> \<lparr>regular = True, readable = False, removable = False\<rparr>]"

text \<open>A photo at PHOTO\_PATH as a capture tool leaves it.\<close>

definition readable_photo :: filesystem where
  "readable_photo = [PHOTO_PATH \<mapsto> fresh_file]"

text \<open>A reading in range, two out of range, one in range again, one out of range.\<close>

definition walk :: "reading list" where
  "walk = [\<lparr>dist_cm = 30, now = 100, clock_after_send = 101\<rparr>,
           \<lparr>dist_cm = 40, now = 102, clock_after_send = 102\<rparr>,
           \<lparr>dist_cm = 50, now = 103, clock_after_send = 103\<rparr>,
           \<lparr>dist_cm = 20, now = 104, clock_after_send = 104\<rparr>,
           \<lparr>dist_cm = 60, now = 105, clock_after_send = 105\<rparr>]"

section \<open>Properties of the helpers\<close>

subsection \<open>The capture chain\<close>

lemma hangs_not_clean: "hangs e name \<Longrightarrow> \<not> exits_cleanly e name"
  by (auto simp: hangs_def exits_cleanly_def split: option.splits)

lemma clean_on_path: "exits_cleanly e name \<Longrightarrow> shutil_which e name"
  by (auto simp: shutil_which_def exits_cleanly_def split: option.splits)

lemma backend_eq:
  "backend e fs p name (name # args) =
     (if hangs e name then None
      else if exits_cleanly e name then
        Some (Some (os_path_isfile (fs_after e fs (name # args)) p), fs_after e fs (name # args),
              [Subprocess_run (name # args) None])
      else Some (None, fs_after e fs (name # args),
                 if shutil_which e name then [Subprocess_run (name # args) None] else []))"
  by (auto simp: backend_def hangs_def exits_cleanly_def shutil_which_def run_quiet_def
        fs_after_def subprocess_run_def Let_def
      split: option.splits proc_outcome.splits)

lemma rpicam_cmd_Cons: "\<exists>args. rpicam_cmd p = ''rpicam-still'' # args"
  by (simp add: rpicam_cmd_def)

lemma libcamera_cmd_Cons: "\<exists>args. libcamera_cmd p = ''libcamera-still'' # args"
  by (simp add: libcamera_cmd_def)

lemma fswebcam_cmd_Cons: "\<exists>args. fswebcam_cmd p = ''fswebcam'' # args"
  by (simp add: fswebcam_cmd_def)

lemma capture_image_None:
  "capture_image e fs p = None \<longleftrightarrow>
     hangs e ''rpicam-still''
     \<or> (\<not> exits_cleanly e ''rpicam-still'' \<and> hangs e ''libcamera-still'')
     \<or> (\<not> exits_cleanly e ''rpicam-still'' \<and> \<not> exits_cleanly e ''libcamera-still''
          \<and> hangs e ''fswebcam'')"
proof -
  obtain a1 a2 a3 where c: "rpicam_cmd p = ''rpicam-still'' # a1"
    "libcamera_cmd p = ''libcamera-still'' # a2" "fswebcam_cmd p = ''fswebcam'' # a3"
    using rpicam_cmd_Cons libcamera_cmd_Cons fswebcam_cmd_Cons by blast
  show ?thesis
    unfolding capture_image_def c backend_eq
    by (auto dest: hangs_not_clean)
qed

lemma capture_image_eq:
  assumes "capture_image e fs p \<noteq> None"
  shows "capture_image e fs p
           = Some ((exits_cleanly e ''rpicam-still'' \<or> exits_cleanly e ''libcamera-still''
                      \<or> exits_cleanly e ''fswebcam'')
                   \<and> os_path_isfile
                        (foldl (fs_after e) (remove_stale fs p) (tried e (chain p))) p,
                   foldl (fs_after e) (remove_stale fs p) (tried e (chain p)),
                   map (\<lambda>c. Subprocess_run c None) (tried e (chain p)))"
proof -
  obtain a1 a2 a3 where c: "rpicam_cmd p = ''rpicam-still'' # a1"
    "libcamera_cmd p = ''libcamera-still'' # a2" "fswebcam_cmd p = ''fswebcam'' # a3"
    using rpicam_cmd_Cons libcamera_cmd_Cons fswebcam_cmd_Cons by blast
  have absent: "fs_after e f (n # a) = f" if "\<not> shutil_which e n" for f n a
    using that by (simp add: fs_after_def subprocess_run_def shutil_which_def)
  show ?thesis
    using assms
    unfolding capture_image_def chain_def c backend_eq
    by (auto simp: absent dest: clean_on_path hangs_not_clean split: if_splits)
qed

lemma capture_image_returns: "no_hang e \<Longrightarrow> capture_image e fs p \<noteq> None"
  by (auto simp: capture_image_None no_hang_def)

lemma backend_actions:
  "backend e fs p name cmd = Some (res, fs', acts) \<Longrightarrow> acts = [] \<or> acts = [Subprocess_run cmd None]"
  by (auto simp: backend_def split: if_splits option.splits)

lemma capture_image_actions:
  assumes "capture_image e fs p = Some (ok, fs', acts)"
  shows "\<forall>a \<in> set acts. \<exists>cmd. a = Subprocess_run cmd None"
  using assms unfolding capture_image_def
  by (auto split: option.splits prod.splits dest!: backend_actions)

subsection \<open>The photo step, send\_discord and the loop body\<close>

lemma take_photo_None:
  "take_photo cfg e fs = None \<longleftrightarrow> SEND_PHOTO cfg \<and> capture_image e fs PHOTO_PATH = None"
  by (auto simp: take_photo_def split: option.splits)

lemma take_photo_actions:
  assumes "take_photo cfg e fs = Some (img, fs', acts)"
  shows "filter is_send_call acts = [] \<and> filter is_post acts = [] \<and> filter is_clear acts = []"
proof (cases "SEND_PHOTO cfg")
  case False
  with assms show ?thesis by (simp add: take_photo_def)
next
  case True
  with assms obtain ok cacts where c: "capture_image e fs PHOTO_PATH = Some (ok, fs', cacts)"
    and a: "acts = Capture_image PHOTO_PATH # cacts
              \<or> acts = Capture_image PHOTO_PATH # cacts @ [Logging WARNING CaptureFailed]"
    by (auto simp: take_photo_def split: option.splits if_splits)
  from capture_image_actions [OF c]
  have "filter is_send_call cacts = []" "filter is_post cacts = []" "filter is_clear cacts = []"
    by (auto simp: filter_empty_conv)
  with a show ?thesis by auto
qed

lemma post_and_log_posts:
  "filter is_post (snd (post_and_log e rq)) = [Requests_post rq]"
  by (simp add: post_and_log_def split: sum.splits)

lemma post_and_log_quiet:
  "filter is_send_call (snd (post_and_log e rq)) = [] \<and> filter is_clear (snd (post_and_log e rq)) = []"
  by (simp add: post_and_log_def split: sum.splits)

lemma send_discord_returns: "fst (send_discord cfg e fs d img) = Inr ()"
  by (simp add: send_discord_def split: prod.splits sum.splits)

lemma post_alert_quiet:
  "filter is_send_call (snd (post_alert cfg e fs d img)) = []
   \<and> filter is_clear (snd (post_alert cfg e fs d img)) = []"
  by (simp add: post_alert_def post_and_log_quiet split: option.splits sum.splits)

lemma send_discord_quiet:
  "filter is_send_call (snd (send_discord cfg e fs d img)) = []
   \<and> filter is_clear (snd (send_discord cfg e fs d img)) = []"
  using post_alert_quiet [of cfg e fs d img]
  by (auto simp: send_discord_def split: prod.splits sum.splits)

lemma send_discord_no_webhook:
  "webhook_missing (WEBHOOK_URL cfg) \<Longrightarrow>
     send_discord cfg e fs d img = (Inr (), [Logging ERROR NoWebhook])"
  by (simp add: send_discord_def)

lemma tick_sending:
  assumes "in_range cfg r" "cooldown_left cfg st (now r) \<le> 0"
    and "take_photo cfg e fs = Some (img, fs', acts)"
  shows "tick cfg e st fs r =
           Some (Inr (\<lparr>last_sent = clock_after_send r, was_in_range = True\<rparr>, fs',
                      Logging INFO (TriggerSending (dist_cm r) (COOLDOWN_SECONDS cfg))
                        # acts @ Send_discord (dist_cm r) img
                        # snd (send_discord cfg e fs' (dist_cm r) img)))"
proof -
  obtain sa where "send_discord cfg e fs' (dist_cm r) img = (Inr (), sa)"
    using send_discord_returns [of cfg e fs' "dist_cm r" img]
    by (cases "send_discord cfg e fs' (dist_cm r) img") auto
  with assms show ?thesis by (simp add: tick_def)
qed

lemma tick_cooling:
  assumes "in_range cfg r" "0 < cooldown_left cfg st (now r)"
  shows "tick cfg e st fs r =
           Some (Inr (st\<lparr>was_in_range := True\<rparr>, fs,
                      [Logging INFO (TriggerCooldown (dist_cm r) (cooldown_left cfg st (now r)))]))"
  using assms by (simp add: tick_def)

lemma tick_out_of_range:
  assumes "\<not> in_range cfg r"
  shows "tick cfg e st fs r =
           Some (Inr (st\<lparr>was_in_range := False\<rparr>, fs,
                      if was_in_range st then [Logging INFO Clear] else []))"
  using assms by (simp add: tick_def)

lemma cooldown_left_nonneg: "0 \<le> cooldown_left cfg st t"
  by (simp add: cooldown_left_def)

lemma tick_clears:
  assumes "tick cfg e st fs r = Some (Inr (st', fs', acts))"
  shows "length (filter is_clear acts) = (if was_in_range st \<and> \<not> in_range cfg r then 1 else 0)
         \<and> was_in_range st' = in_range cfg r"
proof (cases "in_range cfg r")
  case False
  with assms show ?thesis by (auto simp: tick_out_of_range)
next
  case True
  show ?thesis
  proof (cases "0 < cooldown_left cfg st (now r)")
    case True
    with \<open>in_range cfg r\<close> assms show ?thesis by (auto simp: tick_cooling)
  next
    case False
    then have z: "cooldown_left cfg st (now r) \<le> 0" by simp
    from assms \<open>in_range cfg r\<close> z obtain img fs1 pacts
      where tp: "take_photo cfg e fs = Some (img, fs1, pacts)"
      by (cases "take_photo cfg e fs") (auto simp: tick_def)
    from tick_sending [OF \<open>in_range cfg r\<close> z tp] assms
    have "acts = Logging INFO (TriggerSending (dist_cm r) (COOLDOWN_SECONDS cfg))
                   # pacts @ Send_discord (dist_cm r) img
                   # snd (send_discord cfg e fs1 (dist_cm r) img)"
      and "st' = \<lparr>last_sent = clock_after_send r, was_in_range = True\<rparr>"
      by simp_all
    with take_photo_actions [OF tp] send_discord_quiet [of cfg e fs1 "dist_cm r" img]
      \<open>in_range cfg r\<close>
    show ?thesis by simp
  qed
qed

lemma tick_returns:
  assumes "no_hang e"
  shows "\<exists>st' fs' acts. tick cfg e st fs r = Some (Inr (st', fs', acts))"
proof -
  from assms have "take_photo cfg e fs \<noteq> None"
    by (simp add: take_photo_None capture_image_returns)
  then obtain img fs1 pacts where tp: "take_photo cfg e fs = Some (img, fs1, pacts)"
    by (cases "take_photo cfg e fs") auto
  show ?thesis
  proof (cases "in_range cfg r")
    case False
    then show ?thesis by (simp add: tick_out_of_range)
  next
    case True
    then show ?thesis
      using tick_sending [OF True _ tp] tick_cooling [OF True]
      by (cases "0 < cooldown_left cfg st (now r)") auto
  qed
qed

lemma main_loop_returns:
  "no_hang e \<Longrightarrow> \<exists>st' fs' acts. main_loop cfg e st fs rs = Some (Inr (st', fs', acts))"
proof (induction rs arbitrary: st fs)
  case Nil
  then show ?case by simp
next
  case (Cons r rs)
  from tick_returns [OF Cons.prems, of cfg st fs r]
  obtain st1 fs1 a1 where t: "tick cfg e st fs r = Some (Inr (st1, fs1, a1))" by blast
  from Cons.IH [OF Cons.prems, of st1 fs1]
  obtain st2 fs2 a2 where "main_loop cfg e st1 fs1 rs = Some (Inr (st2, fs2, a2))" by blast
  with t show ?case by simp
qed

lemma main_loop_clears:
  "main_loop cfg e st fs rs = Some (Inr (st', fs', acts)) \<Longrightarrow>
     length (filter is_clear acts) = excursions (was_in_range st) (map (in_range cfg) rs)"
proof (induction rs arbitrary: st fs acts)
  case Nil
  then show ?case by simp
next
  case (Cons r rs)
  from Cons.prems obtain st1 fs1 a1 a2
    where t: "tick cfg e st fs r = Some (Inr (st1, fs1, a1))"
      and m: "main_loop cfg e st1 fs1 rs = Some (Inr (st', fs', a2))"
      and a: "acts = a1 @ a2"
    by (auto split: option.splits sum.splits)
  from tick_clears [OF t] Cons.IH [OF m] a show ?case by simp
qed

text \<open>What send\_discord does when a webhook is configured, branch by branch.\<close>

lemma send_discord_eq:
  "\<not> webhook_missing (WEBHOOK_URL cfg) \<Longrightarrow>
   send_discord cfg e fs d img =
     (Inr (),
      case attachment fs img of
        Some p \<Rightarrow>
          (case open_rb fs p of
             Inl x \<Rightarrow> [Logging ERROR (DiscordError x)]
           | Inr u \<Rightarrow>
               (let rq = \<lparr>url = WEBHOOK_URL cfg, payload = Multipart d p, timeout = 15\<rparr>
                in case http e rq of
                     Inl x \<Rightarrow> [Requests_post rq, Logging ERROR (DiscordError x)]
                   | Inr r \<Rightarrow>
                       [Requests_post rq,
                        if 200 \<le> status_code r \<and> status_code r < 300
                        then Logging INFO DiscordSent
                        else Logging WARNING
                               (DiscordFailed (status_code r) (take 200 (body_text r)))]))
      | None \<Rightarrow>
          (let rq = \<lparr>url = WEBHOOK_URL cfg, payload = Json d, timeout = 15\<rparr>
           in case http e rq of
                Inl x \<Rightarrow> [Requests_post rq, Logging ERROR (DiscordError x)]
              | Inr r \<Rightarrow>
                  [Requests_post rq,
                   if 200 \<le> status_code r \<and> status_code r < 300
                   then Logging INFO DiscordSent
                   else Logging WARNING
                          (DiscordFailed (status_code r) (take 200 (body_text r)))]))"
  by (simp add: send_discord_def post_alert_def post_and_log_def Let_def
      split: option.splits sum.splits)

section \<open>The claims\<close>

subsection \<open>One iteration of the loop\<close>

text \<open>
  Claim C1, as the code has it. On an iteration whose reading is in range and whose
  cooldown left is 0, and whose photo step returns (the photo is off, or no backend that is
  run hangs), send\_discord is called exactly once and the iteration returns, whatever the
  webhook answers. The stored timestamp is then the clock read again after send\_discord
  has returned (line 230), not the value \<open>now\<close> read at the top of the iteration.
\<close>

theorem sending_tick_stores_clock_after_send:
  assumes "in_range cfg r" and "cooldown_left cfg st (now r) = 0"
    and "SEND_PHOTO cfg \<longrightarrow> capture_image e fs PHOTO_PATH \<noteq> None"
  shows "\<exists>st' fs' acts. tick cfg e st fs r = Some (Inr (st', fs', acts))
           \<and> length (filter is_send_call acts) = 1
           \<and> last_sent st' = clock_after_send r"
proof -
  from assms(3) have "take_photo cfg e fs \<noteq> None" by (simp add: take_photo_None)
  then obtain img fs1 pacts where tp: "take_photo cfg e fs = Some (img, fs1, pacts)"
    by (cases "take_photo cfg e fs") auto
  from assms(2) have z: "cooldown_left cfg st (now r) \<le> 0" by simp
  show ?thesis
    using tick_sending [OF assms(1) z tp] take_photo_actions [OF tp]
      send_discord_quiet [of cfg e fs1 "dist_cm r" img]
    by simp
qed

theorem sending_tick_stores_clock_after_send_witness:
  "in_range demo_cfg \<lparr>dist_cm = 30, now = 100, clock_after_send = 102\<rparr>
   \<and> cooldown_left demo_cfg \<lparr>last_sent = 50, was_in_range = False\<rparr> 100 = 0
   \<and> (\<exists>st' fs' acts.
        tick demo_cfg server_error_env \<lparr>last_sent = 50, was_in_range = False\<rparr> Map.empty
          \<lparr>dist_cm = 30, now = 100, clock_after_send = 102\<rparr> = Some (Inr (st', fs', acts))
        \<and> length (filter is_send_call acts) = 1 \<and> last_sent st' = 102)"
  using sending_tick_stores_clock_after_send
    [of demo_cfg "\<lparr>dist_cm = 30, now = 100, clock_after_send = 102\<rparr>"
        "\<lparr>last_sent = 50, was_in_range = False\<rparr>" server_error_env Map.empty]
  by (simp add: in_range_def cooldown_left_def demo_cfg_def)

text \<open>
  Claim C1 as it is written fails: with \<open>now = 100\<close> and the clock at 102 when
  send\_discord has returned, the stored timestamp is 102 and not the tick time 100.
\<close>

theorem last_sent_is_not_tick_time:
  "in_range demo_cfg \<lparr>dist_cm = 30, now = 100, clock_after_send = 102\<rparr>
   \<and> cooldown_left demo_cfg \<lparr>last_sent = 50, was_in_range = False\<rparr> 100 = 0
   \<and> map_option last_sent
        (result_state (tick demo_cfg no_camera \<lparr>last_sent = 50, was_in_range = False\<rparr> Map.empty
           \<lparr>dist_cm = 30, now = 100, clock_after_send = 102\<rparr>)) = Some 102
   \<and> map_option last_sent
        (result_state (tick demo_cfg no_camera \<lparr>last_sent = 50, was_in_range = False\<rparr> Map.empty
           \<lparr>dist_cm = 30, now = 100, clock_after_send = 102\<rparr>))
       \<noteq> Some (now \<lparr>dist_cm = 30, now = 100, clock_after_send = 102\<rparr>)"
  by (simp add: in_range_def cooldown_left_def demo_cfg_def tick_def take_photo_def
        send_discord_def result_state_def split: prod.splits sum.splits)

text \<open>
  Claim C2. On an iteration whose reading is in range and whose cooldown left is
  positive, capture\_image is not called, no tool is run, send\_discord is not called, no
  request is posted, the stored timestamp is unchanged, and the only action is the
  log line "TRIGGER ... on cooldown ... NOT sending".
\<close>

theorem cooling_tick_only_logs:
  assumes "in_range cfg r" and "0 < cooldown_left cfg st (now r)"
  shows "\<exists>st' acts. tick cfg e st fs r = Some (Inr (st', fs, acts))
           \<and> filter is_capture_call acts = [] \<and> filter is_spawn acts = []
           \<and> filter is_send_call acts = [] \<and> filter is_post acts = []
           \<and> last_sent st' = last_sent st \<and> was_in_range st'
           \<and> acts = [Logging INFO (TriggerCooldown (dist_cm r) (cooldown_left cfg st (now r)))]"
  using tick_cooling [OF assms] by simp

theorem cooling_tick_only_logs_witness:
  "in_range demo_cfg \<lparr>dist_cm = 28, now = 105, clock_after_send = 106\<rparr>
   \<and> 0 < cooldown_left demo_cfg \<lparr>last_sent = 100, was_in_range = True\<rparr> 105
   \<and> (\<exists>st' acts.
        tick demo_cfg no_camera \<lparr>last_sent = 100, was_in_range = True\<rparr> Map.empty
          \<lparr>dist_cm = 28, now = 105, clock_after_send = 106\<rparr> = Some (Inr (st', Map.empty, acts))
        \<and> filter is_capture_call acts = [] \<and> filter is_send_call acts = []
        \<and> last_sent st' = 100
        \<and> acts = [Logging INFO (TriggerCooldown 28 25)])"
  using cooling_tick_only_logs
    [of demo_cfg "\<lparr>dist_cm = 28, now = 105, clock_after_send = 106\<rparr>"
        "\<lparr>last_sent = 100, was_in_range = True\<rparr>" no_camera Map.empty]
  by (auto simp: in_range_def cooldown_left_def demo_cfg_def)

text \<open>
  Claim C3. On an iteration whose distance is above the threshold, capture\_image is not
  called, no tool is run, send\_discord is not called, no request is posted, the file
  system and the stored timestamp are unchanged; the state after it is the state before
  it with was\_in\_range false.
\<close>

theorem out_of_range_tick_is_quiet:
  assumes "DISTANCE_THRESHOLD_CM cfg < dist_cm r"
  shows "\<exists>st' acts. tick cfg e st fs r = Some (Inr (st', fs, acts))
           \<and> filter is_capture_call acts = [] \<and> filter is_spawn acts = []
           \<and> filter is_send_call acts = [] \<and> filter is_post acts = []
           \<and> last_sent st' = last_sent st
           \<and> st' = st\<lparr>was_in_range := False\<rparr>"
proof -
  from assms have "\<not> in_range cfg r" by (simp add: in_range_def)
  from tick_out_of_range [OF this] show ?thesis by simp
qed

theorem out_of_range_tick_is_quiet_witness:
  "DISTANCE_THRESHOLD_CM demo_cfg < dist_cm \<lparr>dist_cm = 40, now = 200, clock_after_send = 201\<rparr>
   \<and> (\<exists>st' acts.
        tick demo_cfg no_camera \<lparr>last_sent = 100, was_in_range = True\<rparr> Map.empty
          \<lparr>dist_cm = 40, now = 200, clock_after_send = 201\<rparr> = Some (Inr (st', Map.empty, acts))
        \<and> filter is_capture_call acts = [] \<and> filter is_send_call acts = []
        \<and> last_sent st' = 100
        \<and> st' = \<lparr>last_sent = 100, was_in_range = False\<rparr>)"
  using out_of_range_tick_is_quiet
    [of demo_cfg "\<lparr>dist_cm = 40, now = 200, clock_after_send = 201\<rparr>"
        no_camera "\<lparr>last_sent = 100, was_in_range = True\<rparr>" Map.empty]
  by (auto simp: demo_cfg_def)

subsection \<open>The CLEAR log line\<close>

text \<open>
  Claim C4. An iteration out of range logs CLEAR only when was\_in\_range is true, and
  sets it false. Over any sequence of iterations the number of CLEAR lines is the number
  of edges from in range to out of range (the flag before the first reading counting as
  the reading before it): one for each contiguous excursion out of range, and none while
  the readings stay out of range. The loop gets through the whole sequence when no capture
  backend hangs.
\<close>

theorem clear_once_per_excursion:
  "(\<not> in_range cfg r \<longrightarrow>
      tick cfg e st fs r =
        Some (Inr (st\<lparr>was_in_range := False\<rparr>, fs,
                   if was_in_range st then [Logging INFO Clear] else [])))
   \<and> (no_hang e \<longrightarrow> (\<exists>st' fs' acts. main_loop cfg e st fs rs = Some (Inr (st', fs', acts))))
   \<and> (\<forall>st' fs' acts. main_loop cfg e st fs rs = Some (Inr (st', fs', acts)) \<longrightarrow>
         length (filter is_clear acts) = excursions (was_in_range st) (map (in_range cfg) rs))"
  using tick_out_of_range [of cfg r e st fs] main_loop_returns [of e cfg st fs rs]
    main_loop_clears [of cfg e st fs rs]
  by blast

theorem clear_once_per_excursion_witness:
  "\<not> in_range demo_cfg \<lparr>dist_cm = 40, now = 102, clock_after_send = 102\<rparr>
   \<and> no_hang no_camera
   \<and> (\<exists>st' fs' acts. main_loop demo_cfg no_camera initial_state Map.empty walk
                        = Some (Inr (st', fs', acts))
         \<and> length (filter is_clear acts) = 2)"
  using clear_once_per_excursion
    [of demo_cfg "\<lparr>dist_cm = 40, now = 102, clock_after_send = 102\<rparr>" no_camera
        initial_state Map.empty walk]
  by (auto simp: in_range_def demo_cfg_def no_hang_def hangs_def no_camera_def walk_def
        initial_state_def)

subsection \<open>The capture chain\<close>

text \<open>
  Claim C5, as the code has it. The backends are tried in the order rpicam-still,
  libcamera-still, fswebcam; a backend that is not on the PATH is skipped, and one whose
  command fails is followed by the next. The chain ends at the first backend whose command
  exits cleanly, and the result is then whether the output file exists: a clean exit that
  left no file gives failure at once, and the later backends are not run, whatever they
  would have done. The result is also failure when no backend exits cleanly. Whenever
  capture\_image returns, its result, the file system it leaves (the stale file removed,
  then the commands run one after the other) and the commands it has run are these.
\<close>

theorem capture_chain_stops_at_first_clean_exit:
  assumes "capture_image e fs p \<noteq> None"
  shows "capture_image e fs p
           = Some ((exits_cleanly e ''rpicam-still'' \<or> exits_cleanly e ''libcamera-still''
                      \<or> exits_cleanly e ''fswebcam'')
                   \<and> os_path_isfile
                        (foldl (fs_after e) (remove_stale fs p) (tried e (chain p))) p,
                   foldl (fs_after e) (remove_stale fs p) (tried e (chain p)),
                   map (\<lambda>c. Subprocess_run c None) (tried e (chain p)))"
  using capture_image_eq [OF assms] .

theorem capture_chain_stops_at_first_clean_exit_witness:
  "capture_image late_hang Map.empty PHOTO_PATH \<noteq> None
   \<and> hangs late_hang ''fswebcam''
   \<and> map_option fst (capture_image late_hang Map.empty PHOTO_PATH) = Some True
   \<and> map_option (snd \<circ> snd) (capture_image late_hang Map.empty PHOTO_PATH)
       = Some [Subprocess_run (rpicam_cmd PHOTO_PATH) None]"
proof -
  have r: "capture_image late_hang Map.empty PHOTO_PATH \<noteq> None"
    by (simp add: capture_image_None hangs_def exits_cleanly_def late_hang_def)
  have t: "tried late_hang (chain PHOTO_PATH) = [rpicam_cmd PHOTO_PATH]"
    by (simp add: chain_def shutil_which_def exits_cleanly_def late_hang_def)
  have f: "os_path_isfile (fs_after late_hang (remove_stale Map.empty PHOTO_PATH)
             (rpicam_cmd PHOTO_PATH)) PHOTO_PATH"
    by (simp add: fs_after_def subprocess_run_def rpicam_cmd_def late_hang_def
          os_path_isfile_def PHOTO_PATH_def fresh_file_def)
  have h: "hangs late_hang ''fswebcam''" "exits_cleanly late_hang ''rpicam-still''"
    by (simp_all add: hangs_def exits_cleanly_def late_hang_def)
  show ?thesis
    using capture_chain_stops_at_first_clean_exit [OF r] r h f
    by (simp add: t)
qed

text \<open>
  Claim C5 as it is written fails: when rpicam-still exits cleanly and leaves no file, the
  chain does not go on to libcamera-still, which is on the PATH and would have produced
  the file; capture\_image returns failure after running rpicam-still only.
\<close>

theorem clean_exit_without_file_ends_chain:
  "exits_cleanly silent_rpicam ''rpicam-still''
   \<and> \<not> os_path_isfile (fs_after silent_rpicam Map.empty (rpicam_cmd PHOTO_PATH)) PHOTO_PATH
   \<and> map_option fst (capture_image silent_rpicam Map.empty PHOTO_PATH) = Some False
   \<and> map_option (snd \<circ> snd) (capture_image silent_rpicam Map.empty PHOTO_PATH)
       = Some [Subprocess_run (rpicam_cmd PHOTO_PATH) None]
   \<and> shutil_which silent_rpicam ''libcamera-still''
   \<and> map_option fst (run_quiet silent_rpicam Map.empty (libcamera_cmd PHOTO_PATH)) = Some True
   \<and> os_path_isfile (fs_after silent_rpicam Map.empty (libcamera_cmd PHOTO_PATH)) PHOTO_PATH"
  by (simp add: exits_cleanly_def silent_rpicam_def fs_after_def subprocess_run_def
        rpicam_cmd_def libcamera_cmd_def os_path_isfile_def PHOTO_PATH_def capture_image_def
        backend_def shutil_which_def run_quiet_def remove_stale_def os_path_exists_def
        fresh_file_def)

text \<open>
  Claim C8, as the code has it. Every backend is run by subprocess.run with no timeout
  argument, so a call returns only when the tool exits by itself: capture\_image never
  returns exactly when a backend that the chain reaches hangs, and every command it has
  run when it returns was run without a timeout.
\<close>

theorem capture_blocks_iff_a_backend_hangs:
  "(capture_image e fs p = None \<longleftrightarrow>
      hangs e ''rpicam-still''
      \<or> (\<not> exits_cleanly e ''rpicam-still'' \<and> hangs e ''libcamera-still'')
      \<or> (\<not> exits_cleanly e ''rpicam-still'' \<and> \<not> exits_cleanly e ''libcamera-still''
           \<and> hangs e ''fswebcam''))
   \<and> (\<forall>ok fs' acts. capture_image e fs p = Some (ok, fs', acts) \<longrightarrow>
         (\<forall>a \<in> set acts. \<exists>cmd. a = Subprocess_run cmd None))"
  using capture_image_None [of e fs p] capture_image_actions [of e fs p]
  by blast

theorem capture_blocks_iff_a_backend_hangs_witness:
  "hangs stuck_rpicam ''rpicam-still''
   \<and> capture_image stuck_rpicam Map.empty PHOTO_PATH = None
   \<and> \<not> hangs silent_rpicam ''rpicam-still'' \<and> exits_cleanly silent_rpicam ''rpicam-still''
   \<and> capture_image silent_rpicam Map.empty PHOTO_PATH \<noteq> None"
  using capture_blocks_iff_a_backend_hangs [of stuck_rpicam Map.empty PHOTO_PATH]
    capture_blocks_iff_a_backend_hangs [of silent_rpicam Map.empty PHOTO_PATH]
  by (simp add: hangs_def stuck_rpicam_def silent_rpicam_def exits_cleanly_def)

text \<open>
  Claim C8 as it is written fails: with a rpicam-still that hangs, the call of
  \_run\_quiet never returns, so neither capture\_image nor the iteration of the loop that
  called it does. The same command under a timeout would have raised TimeoutExpired.
\<close>

theorem hung_capture_tool_blocks_the_loop:
  "shutil_which stuck_rpicam ''rpicam-still''
   \<and> run_quiet stuck_rpicam Map.empty (rpicam_cmd PHOTO_PATH) = None
   \<and> capture_image stuck_rpicam Map.empty PHOTO_PATH = None
   \<and> in_range photo_cfg \<lparr>dist_cm = 30, now = 100, clock_after_send = 102\<rparr>
   \<and> cooldown_left photo_cfg initial_state 100 = 0
   \<and> tick photo_cfg stuck_rpicam initial_state Map.empty
        \<lparr>dist_cm = 30, now = 100, clock_after_send = 102\<rparr> = None
   \<and> map_option fst (subprocess_run stuck_rpicam Map.empty (rpicam_cmd PHOTO_PATH) (Some 5))
       = Some (Inl TimeoutExpired)"
  by (simp add: stuck_rpicam_def shutil_which_def run_quiet_def subprocess_run_def
        rpicam_cmd_def capture_image_def backend_def in_range_def photo_cfg_def demo_cfg_def
        cooldown_left_def initial_state_def tick_def take_photo_def)

subsection \<open>The stored timestamp\<close>

text \<open>
  Claim C6, as the code has it. An iteration (whose photo step returns) calls
  send\_discord exactly when the reading is in range and the cooldown left is 0, and the
  stored timestamp is replaced, by the clock read after the call, exactly on those
  iterations. Whether send\_discord posted a request plays no part: when no valid webhook
  is configured it logs an error and posts nothing, and the timestamp is replaced all the
  same.
\<close>

theorem last_sent_updated_iff_send_discord_called:
  assumes "SEND_PHOTO cfg \<longrightarrow> capture_image e fs PHOTO_PATH \<noteq> None"
  shows "\<exists>st' fs' acts. tick cfg e st fs r = Some (Inr (st', fs', acts))
           \<and> (filter is_send_call acts \<noteq> [] \<longleftrightarrow>
                in_range cfg r \<and> cooldown_left cfg st (now r) = 0)
           \<and> last_sent st' = (if filter is_send_call acts \<noteq> [] then clock_after_send r
                               else last_sent st)
           \<and> (webhook_missing (WEBHOOK_URL cfg) \<longrightarrow>
                filter is_post acts = []
                \<and> (in_range cfg r \<and> cooldown_left cfg st (now r) = 0 \<longrightarrow>
                     Logging ERROR NoWebhook \<in> set acts))"
proof (cases "in_range cfg r")
  case False
  then show ?thesis by (simp add: tick_out_of_range)
next
  case True
  show ?thesis
  proof (cases "0 < cooldown_left cfg st (now r)")
    case True
    with \<open>in_range cfg r\<close> show ?thesis by (simp add: tick_cooling)
  next
    case False
    then have z: "cooldown_left cfg st (now r) \<le> 0" by simp
    with cooldown_left_nonneg [of cfg st "now r"]
    have z0: "cooldown_left cfg st (now r) = 0" by simp
    from assms have "take_photo cfg e fs \<noteq> None" by (simp add: take_photo_None)
    then obtain img fs1 pacts where tp: "take_photo cfg e fs = Some (img, fs1, pacts)"
      by (cases "take_photo cfg e fs") auto
    show ?thesis
      using tick_sending [OF True z tp] take_photo_actions [OF tp] True z0
        send_discord_quiet [of cfg e fs1 "dist_cm r" img]
        send_discord_no_webhook [of cfg e fs1 "dist_cm r" img]
      by auto
  qed
qed

theorem last_sent_updated_iff_send_discord_called_witness:
  "\<not> SEND_PHOTO default_cfg
   \<and> webhook_missing (WEBHOOK_URL default_cfg)
   \<and> in_range default_cfg \<lparr>dist_cm = 30, now = 100, clock_after_send = 102\<rparr>
   \<and> cooldown_left default_cfg \<lparr>last_sent = 50, was_in_range = False\<rparr> 100 = 0
   \<and> (\<exists>st' fs' acts.
        tick default_cfg no_camera \<lparr>last_sent = 50, was_in_range = False\<rparr> Map.empty
          \<lparr>dist_cm = 30, now = 100, clock_after_send = 102\<rparr> = Some (Inr (st', fs', acts))
        \<and> filter is_send_call acts \<noteq> [] \<and> last_sent st' = 102
        \<and> filter is_post acts = [] \<and> Logging ERROR NoWebhook \<in> set acts)"
  using last_sent_updated_iff_send_discord_called
    [of default_cfg no_camera Map.empty "\<lparr>last_sent = 50, was_in_range = False\<rparr>"
        "\<lparr>dist_cm = 30, now = 100, clock_after_send = 102\<rparr>"]
  by (auto simp: default_cfg_def demo_cfg_def webhook_missing_def PLACEHOLDER_def
        in_range_def cooldown_left_def)

text \<open>
  Claim C6 as it is written fails: with the placeholder webhook, an in-range iteration
  outside the cooldown posts no request, and the stored timestamp still goes from 50 to
  102.
\<close>

theorem missing_webhook_still_starts_cooldown:
  "webhook_missing (WEBHOOK_URL default_cfg)
   \<and> result_actions
        (tick default_cfg no_camera \<lparr>last_sent = 50, was_in_range = False\<rparr> Map.empty
           \<lparr>dist_cm = 30, now = 100, clock_after_send = 102\<rparr>)
       = Some [Logging INFO (TriggerSending 30 30), Send_discord 30 None,
               Logging ERROR NoWebhook]
   \<and> last_sent \<lparr>last_sent = 50, was_in_range = False\<rparr> = 50
   \<and> map_option last_sent
        (result_state
           (tick default_cfg no_camera \<lparr>last_sent = 50, was_in_range = False\<rparr> Map.empty
              \<lparr>dist_cm = 30, now = 100, clock_after_send = 102\<rparr>)) = Some 102"
  by (simp add: default_cfg_def demo_cfg_def webhook_missing_def PLACEHOLDER_def
        in_range_def cooldown_left_def tick_def take_photo_def send_discord_def
        result_actions_def result_state_def)

text \<open>
  Claim C7, as the code has it. Before the first send the stored timestamp is 0.0, not
  minus infinity: the cooldown left is then 0 exactly when the clock has reached
  COOLDOWN\_SECONDS. An in-range iteration takes the sending branch when it has, and the
  cooldown branch when the clock is still below COOLDOWN\_SECONDS.
\<close>

theorem first_send_needs_clock_past_cooldown:
  assumes "last_sent st = 0"
  shows "(cooldown_left cfg st (now r) = 0 \<longleftrightarrow> COOLDOWN_SECONDS cfg \<le> now r)
   \<and> (in_range cfg r \<and> COOLDOWN_SECONDS cfg \<le> now r
        \<and> (SEND_PHOTO cfg \<longrightarrow> capture_image e fs PHOTO_PATH \<noteq> None) \<longrightarrow>
        (\<exists>st' fs' acts. tick cfg e st fs r = Some (Inr (st', fs', acts))
           \<and> length (filter is_send_call acts) = 1))
   \<and> (in_range cfg r \<and> now r < COOLDOWN_SECONDS cfg \<longrightarrow>
        tick cfg e st fs r =
          Some (Inr (st\<lparr>was_in_range := True\<rparr>, fs,
                     [Logging INFO (TriggerCooldown (dist_cm r) (COOLDOWN_SECONDS cfg - now r))])))"
proof -
  from assms have c: "cooldown_left cfg st (now r) = max 0 (COOLDOWN_SECONDS cfg - now r)"
    by (simp add: cooldown_left_def)
  then have a: "cooldown_left cfg st (now r) = 0 \<longleftrightarrow> COOLDOWN_SECONDS cfg \<le> now r"
    by auto
  have b: "\<exists>st' fs' acts. tick cfg e st fs r = Some (Inr (st', fs', acts))
             \<and> length (filter is_send_call acts) = 1"
    if h: "in_range cfg r" "COOLDOWN_SECONDS cfg \<le> now r"
          "SEND_PHOTO cfg \<longrightarrow> capture_image e fs PHOTO_PATH \<noteq> None"
  proof -
    from h(3) have "take_photo cfg e fs \<noteq> None" by (simp add: take_photo_None)
    then obtain img fs1 pacts where tp: "take_photo cfg e fs = Some (img, fs1, pacts)"
      by (cases "take_photo cfg e fs") auto
    from a h(2) have z: "cooldown_left cfg st (now r) \<le> 0" by simp
    show ?thesis
      using tick_sending [OF h(1) z tp] take_photo_actions [OF tp]
        send_discord_quiet [of cfg e fs1 "dist_cm r" img]
      by simp
  qed
  have d: "tick cfg e st fs r =
          Some (Inr (st\<lparr>was_in_range := True\<rparr>, fs,
                     [Logging INFO (TriggerCooldown (dist_cm r) (COOLDOWN_SECONDS cfg - now r))]))"
    if h: "in_range cfg r" "now r < COOLDOWN_SECONDS cfg"
  proof -
    from c h(2) have p: "cooldown_left cfg st (now r) = COOLDOWN_SECONDS cfg - now r" by simp
    with h(2) have "0 < cooldown_left cfg st (now r)" by simp
    from tick_cooling [OF h(1) this] p show ?thesis by simp
  qed
  from a b d show ?thesis by blast
qed

theorem first_send_needs_clock_past_cooldown_witness:
  "last_sent initial_state = 0
   \<and> cooldown_left demo_cfg initial_state 100 = 0
   \<and> in_range demo_cfg \<lparr>dist_cm = 30, now = 100, clock_after_send = 102\<rparr>
   \<and> COOLDOWN_SECONDS demo_cfg \<le> 100
   \<and> \<not> SEND_PHOTO demo_cfg
   \<and> (\<exists>st' fs' acts.
         tick demo_cfg no_camera initial_state Map.empty
           \<lparr>dist_cm = 30, now = 100, clock_after_send = 102\<rparr> = Some (Inr (st', fs', acts))
         \<and> length (filter is_send_call acts) = 1)"
  using first_send_needs_clock_past_cooldown
    [of initial_state demo_cfg "\<lparr>dist_cm = 30, now = 100, clock_after_send = 102\<rparr>"
        no_camera Map.empty]
  by (auto simp: initial_state_def demo_cfg_def in_range_def cooldown_left_def)

text \<open>
  Claim C7 as it is written fails: with a cooldown of 30 and the clock at 10, the first
  in-range reading of the session has a cooldown left of 20 and nothing is sent.
\<close>

theorem first_sample_on_cooldown_when_clock_is_small:
  "last_sent initial_state = 0
   \<and> 0 < now \<lparr>dist_cm = 30, now = 10, clock_after_send = 11\<rparr>
   \<and> in_range demo_cfg \<lparr>dist_cm = 30, now = 10, clock_after_send = 11\<rparr>
   \<and> cooldown_left demo_cfg initial_state 10 = 20
   \<and> result_actions
        (tick demo_cfg no_camera initial_state Map.empty
           \<lparr>dist_cm = 30, now = 10, clock_after_send = 11\<rparr>)
       = Some [Logging INFO (TriggerCooldown 30 20)]"
  by (simp add: initial_state_def demo_cfg_def in_range_def cooldown_left_def tick_def
        result_actions_def)

subsection \<open>Notification dispatch\<close>

text \<open>
  Claim C9. For every configuration, distance, image path, file system and answer of the
  webhook (a response with any status, or an exception such as a timeout or a transport
  error), send\_discord returns normally. It posts at most one request, so nothing is
  retried, and every failure is logged: a missing webhook with its error line and
  nothing else; a photo that exists and cannot be opened with the exception of
  \<open>open\<close>, no request being posted; an exception of the post with the exception;
  a status outside 200..299 with the status code and the first 200 characters of the
  body. When a webhook is configured and the photo, if one is attached, can be opened,
  exactly one request is posted. The iteration that called it keeps the timestamp it
  stores then, whatever the outcome was.
\<close>

theorem send_discord_never_raises:
  "\<exists>acts. send_discord cfg e fs d img = (Inr (), acts)
     \<and> length (filter is_post acts) \<le> 1
     \<and> (\<forall>rq. Requests_post rq \<in> set acts \<longrightarrow>
           (case http e rq of
              Inl x \<Rightarrow> Logging ERROR (DiscordError x) \<in> set acts
            | Inr r \<Rightarrow>
                if 200 \<le> status_code r \<and> status_code r < 300
                then Logging INFO DiscordSent \<in> set acts
                else Logging WARNING (DiscordFailed (status_code r) (take 200 (body_text r)))
                       \<in> set acts))
     \<and> (webhook_missing (WEBHOOK_URL cfg) \<longrightarrow> acts = [Logging ERROR NoWebhook])
     \<and> (\<forall>p x. \<not> webhook_missing (WEBHOOK_URL cfg) \<and> img = Some p \<and> os_path_isfile fs p
                 \<and> open_rb fs p = Inl x \<longrightarrow>
             acts = [Logging ERROR (DiscordError x)])
     \<and> (\<not> webhook_missing (WEBHOOK_URL cfg)
          \<and> (\<forall>p. img = Some p \<and> os_path_isfile fs p \<longrightarrow> open_rb fs p = Inr ()) \<longrightarrow>
          length (filter is_post acts) = 1)
     \<and> (in_range cfg r \<and> cooldown_left cfg st (now r) = 0
          \<and> (SEND_PHOTO cfg \<longrightarrow> capture_image e fs PHOTO_PATH \<noteq> None) \<longrightarrow>
          map_option last_sent (result_state (tick cfg e st fs r)) = Some (clock_after_send r))"
proof -
  have t: "map_option last_sent (result_state (tick cfg e st fs r)) = Some (clock_after_send r)"
    if h: "in_range cfg r" "cooldown_left cfg st (now r) = 0"
          "SEND_PHOTO cfg \<longrightarrow> capture_image e fs PHOTO_PATH \<noteq> None"
  proof -
    from h(3) have "take_photo cfg e fs \<noteq> None" by (simp add: take_photo_None)
    then obtain im fs1 pacts where tp: "take_photo cfg e fs = Some (im, fs1, pacts)"
      by (cases "take_photo cfg e fs") auto
    from h(2) have z: "cooldown_left cfg st (now r) \<le> 0" by simp
    show ?thesis by (simp add: tick_sending [OF h(1) z tp] result_state_def)
  qed
  show ?thesis
  proof (cases "webhook_missing (WEBHOOK_URL cfg)")
    case True
    with t show ?thesis by (simp add: send_discord_no_webhook)
  next
    case False
    have "\<exists>acts. send_discord cfg e fs d img = (Inr (), acts)
     \<and> length (filter is_post acts) \<le> 1
     \<and> (\<forall>rq. Requests_post rq \<in> set acts \<longrightarrow>
           (case http e rq of
              Inl x \<Rightarrow> Logging ERROR (DiscordError x) \<in> set acts
            | Inr r \<Rightarrow>
                if 200 \<le> status_code r \<and> status_code r < 300
                then Logging INFO DiscordSent \<in> set acts
                else Logging WARNING (DiscordFailed (status_code r) (take 200 (body_text r)))
                       \<in> set acts))
     \<and> (\<forall>p x. img = Some p \<and> os_path_isfile fs p \<and> open_rb fs p = Inl x \<longrightarrow>
             acts = [Logging ERROR (DiscordError x)])
     \<and> ((\<forall>p. img = Some p \<and> os_path_isfile fs p \<longrightarrow> open_rb fs p = Inr ()) \<longrightarrow>
          length (filter is_post acts) = 1)"
      unfolding send_discord_eq [OF False]
      by (auto simp: Let_def attachment_def os_path_isfile_def split: option.splits sum.splits)
    with t False show ?thesis by blast
  qed
qed

theorem send_discord_never_raises_witness:
  "(\<exists>acts. send_discord demo_cfg server_error_env Map.empty 30 None = (Inr (), acts)
      \<and> Requests_post \<lparr>url = WEBHOOK_URL demo_cfg, payload = Json 30, timeout = 15\<rparr> \<in> set acts
      \<and> Logging WARNING (DiscordFailed 500 ''Internal Server Error'') \<in> set acts
      \<and> length (filter is_post acts) = 1)
   \<and> \<not> webhook_missing (WEBHOOK_URL demo_cfg)
   \<and> os_path_isfile locked_photo PHOTO_PATH
   \<and> open_rb locked_photo PHOTO_PATH = Inl PermissionError
   \<and> send_discord demo_cfg server_error_env locked_photo 30 (Some PHOTO_PATH)
       = (Inr (), [Logging ERROR (DiscordError PermissionError)])
   \<and> webhook_missing (WEBHOOK_URL default_cfg)
   \<and> send_discord default_cfg server_error_env Map.empty 30 None
       = (Inr (), [Logging ERROR NoWebhook])
   \<and> in_range demo_cfg \<lparr>dist_cm = 30, now = 100, clock_after_send = 102\<rparr>
   \<and> cooldown_left demo_cfg initial_state 100 = 0
   \<and> \<not> SEND_PHOTO demo_cfg
   \<and> map_option last_sent
        (result_state (tick demo_cfg server_error_env initial_state Map.empty
           \<lparr>dist_cm = 30, now = 100, clock_after_send = 102\<rparr>)) = Some 102"
proof -
  have p: "send_discord demo_cfg server_error_env Map.empty 30 None
        = (Inr (), [Requests_post \<lparr>url = WEBHOOK_URL demo_cfg, payload = Json 30, timeout = 15\<rparr>,
                    Logging WARNING (DiscordFailed 500 ''Internal Server Error'')])"
    by (simp add: send_discord_def demo_cfg_def webhook_missing_def PLACEHOLDER_def
          post_alert_def attachment_def post_and_log_def server_error_env_def http_500_def)
  have w: "\<not> webhook_missing (WEBHOOK_URL demo_cfg)"
    by (simp add: demo_cfg_def webhook_missing_def PLACEHOLDER_def)
  have m: "webhook_missing (WEBHOOK_URL default_cfg)"
    by (simp add: default_cfg_def demo_cfg_def webhook_missing_def PLACEHOLDER_def)
  have f: "os_path_isfile locked_photo PHOTO_PATH"
    "open_rb locked_photo PHOTO_PATH = Inl PermissionError"
    by (simp_all add: os_path_isfile_def open_rb_def locked_photo_def PHOTO_PATH_def)
  have i: "in_range demo_cfg \<lparr>dist_cm = 30, now = 100, clock_after_send = 102\<rparr>"
    "cooldown_left demo_cfg initial_state 100 = 0" "\<not> SEND_PHOTO demo_cfg"
    by (simp_all add: demo_cfg_def in_range_def cooldown_left_def initial_state_def)
  from send_discord_never_raises
      [of demo_cfg server_error_env Map.empty 30 None
          "\<lparr>dist_cm = 30, now = 100, clock_after_send = 102\<rparr>" initial_state] i
  have a: "map_option last_sent
        (result_state (tick demo_cfg server_error_env initial_state Map.empty
           \<lparr>dist_cm = 30, now = 100, clock_after_send = 102\<rparr>)) = Some 102"
    by auto
  from send_discord_never_raises
      [of demo_cfg server_error_env locked_photo 30 "Some PHOTO_PATH"] w f
  have b: "send_discord demo_cfg server_error_env locked_photo 30 (Some PHOTO_PATH)
       = (Inr (), [Logging ERROR (DiscordError PermissionError)])"
    by auto
  from send_discord_never_raises [of default_cfg server_error_env Map.empty 30 None] m
  have c: "send_discord default_cfg server_error_env Map.empty 30 None
       = (Inr (), [Logging ERROR NoWebhook])"
    by auto
  from p w m f i a b c show ?thesis by simp
qed

text \<open>
  Claim C10, as the code has it. With a webhook configured, the multipart branch is taken
  exactly when image\_path is not None and a regular file exists at that path. The image
  is attached, in one multipart request, when the file can also be opened for reading;
  when it exists and cannot be opened, the exception of \<open>open\<close> is caught and no
  request is posted at all. In every other case, a path with no file included, one
  text-only JSON request is posted.
\<close>

theorem image_attached_iff_file_opens:
  assumes "\<not> webhook_missing (WEBHOOK_URL cfg)"
  shows "filter is_post (snd (send_discord cfg e fs d img)) =
     (case img of
        None \<Rightarrow> [Requests_post \<lparr>url = WEBHOOK_URL cfg, payload = Json d, timeout = 15\<rparr>]
      | Some p \<Rightarrow>
          if os_path_isfile fs p then
            (if open_rb fs p = Inr ()
             then [Requests_post
                     \<lparr>url = WEBHOOK_URL cfg, payload = Multipart d p, timeout = 15\<rparr>]
             else [])
          else [Requests_post \<lparr>url = WEBHOOK_URL cfg, payload = Json d, timeout = 15\<rparr>])"
  unfolding send_discord_eq [OF assms]
  by (auto simp: attachment_def os_path_isfile_def Let_def split: option.splits sum.splits)

theorem image_attached_iff_file_opens_witness:
  "\<not> webhook_missing (WEBHOOK_URL demo_cfg)
   \<and> os_path_isfile readable_photo PHOTO_PATH
   \<and> open_rb readable_photo PHOTO_PATH = Inr ()
   \<and> filter is_post (snd (send_discord demo_cfg no_camera readable_photo 30 (Some PHOTO_PATH)))
       = [Requests_post \<lparr>url = WEBHOOK_URL demo_cfg, payload = Multipart 30 PHOTO_PATH,
                         timeout = 15\<rparr>]
   \<and> filter is_post (snd (send_discord demo_cfg no_camera Map.empty 30 (Some PHOTO_PATH)))
       = [Requests_post \<lparr>url = WEBHOOK_URL demo_cfg, payload = Json 30, timeout = 15\<rparr>]"
proof -
  have w: "\<not> webhook_missing (WEBHOOK_URL demo_cfg)"
    by (simp add: demo_cfg_def webhook_missing_def PLACEHOLDER_def)
  show ?thesis
    using image_attached_iff_file_opens [OF w, of no_camera readable_photo 30 "Some PHOTO_PATH"]
      image_attached_iff_file_opens [OF w, of no_camera Map.empty 30 "Some PHOTO_PATH"] w
    by (simp add: os_path_isfile_def open_rb_def readable_photo_def fresh_file_def PHOTO_PATH_def)
qed

text \<open>
  Claim C10 as it is written fails: a regular file exists at the path and the process
  may not read it; send\_discord logs the PermissionError and posts neither a multipart
  nor a JSON request.
\<close>

theorem unreadable_photo_sends_nothing:
  "\<not> webhook_missing (WEBHOOK_URL demo_cfg)
   \<and> os_path_isfile locked_photo PHOTO_PATH
   \<and> send_discord demo_cfg no_camera locked_photo 30 (Some PHOTO_PATH)
       = (Inr (), [Logging ERROR (DiscordError PermissionError)])
   \<and> filter is_post (snd (send_discord demo_cfg no_camera locked_photo 30 (Some PHOTO_PATH))) = []"
  by (simp add: demo_cfg_def webhook_missing_def PLACEHOLDER_def os_path_isfile_def
        locked_photo_def PHOTO_PATH_def send_discord_def post_alert_def attachment_def
        open_rb_def)

end
